theory Spec2Isabelle
  imports Main
begin

section \<open>Python values, exceptions and the library functions the adapter calls\<close>

text \<open>
  A shallow embedding of \<^verbatim>\<open>src/shillelagh_govinfo/govinfo.py\<close>. Every exception the
  adapter can meet is a constructor of \<open>error\<close>; a computation that may raise returns
  \<open>error + 'a\<close>, with \<open>Inl\<close> the exception. A \<open>string\<close> stands for a Python \<^verbatim>\<open>str\<close>,
  a character beyond ASCII by the bytes of its UTF-8 encoding. What the adapter itself
  does with a string reads the same on that encoding: it splits at \<^verbatim>\<open>/\<close>, compares
  with ASCII literals, concatenates, and lowercases a collection name only to look it
  up among ASCII names. What depends on the characters beyond ASCII, the decoding of
  percent escapes and the match of a regular expression, is done by library functions,
  which are parameters of the model.
\<close>

datatype error =
    IndexError
  | KeyError
  | TypeError
  | ValueError
  | NotImplementedError
  | ProgrammingError
  | UnboundLocalError
  | AttributeError
  | RequestException

text \<open>\<^verbatim>\<open>xs[i]\<close> with a literal index \<open>i \<ge> 0\<close>: out of range raises.\<close>

definition getitem :: "'a list \<Rightarrow> nat \<Rightarrow> error + 'a" where
  "getitem xs i = (if i < length xs then Inr (xs ! i) else Inl IndexError)"

text \<open>\<^verbatim>\<open>d[k]\<close> on a dictionary: a missing key raises.\<close>

definition dict_getitem :: "('k \<rightharpoonup> 'v) \<Rightarrow> 'k \<Rightarrow> error + 'v" where
  "dict_getitem d k = (case d k of None \<Rightarrow> Inl KeyError | Some v \<Rightarrow> Inr v)"

text \<open>
  \<^verbatim>\<open>s.split(sep)\<close> with a one-character separator: the empty string splits into one
  empty piece, and \<open>n\<close> separators give \<open>n + 1\<close> pieces.
\<close>

fun str_split :: "char \<Rightarrow> string \<Rightarrow> string list" where
  "str_split sep [] = [[]]"
| "str_split sep (c # cs) =
     (if c = sep then [] # str_split sep cs
      else (case str_split sep cs of
              [] \<Rightarrow> [[c]]
            | w # ws \<Rightarrow> (c # w) # ws))"

text \<open>
  \<^verbatim>\<open>str.lower\<close>, on the ASCII letters. The adapter lowercases a collection only to
  look it up in \<open>COLLECTIONS\<close>, and no character beyond ASCII lowercases to a letter
  of \<^verbatim>\<open>bills\<close>, so the lookup gives what it gives in Python.
\<close>

definition lower_char :: "char \<Rightarrow> char" where
  "lower_char c =
     (let n = (of_char c :: nat)
      in if 65 \<le> n \<and> n \<le> 90 then char_of (n + 32) else c)"

definition lower :: "string \<Rightarrow> string" where
  "lower s = map lower_char s"

text \<open>
  The fragment of \<^verbatim>\<open>re\<close> that \<^verbatim>\<open>DATE_PATTERN\<close> is written in: a sequence of literal
  characters and of \<^verbatim>\<open>\d{n}\<close>.
\<close>

datatype re_item = Digits nat | Lit char

text \<open>
  What \<^verbatim>\<open>urllib.parse.urlparse\<close> returns, and the functions of other packages that the
  adapter calls, taken as parameters: \<open>urlparse\<close>, \<open>parse_qs\<close> and \<open>unquote\<close> of
  \<^verbatim>\<open>urllib.parse\<close> (the dictionary of \<open>parse_qs\<close> as a map; \<open>unquote\<close> decodes the
  percent escapes as UTF-8), \<open>fullmatch\<close> for \<^verbatim>\<open>bool(pattern.fullmatch(s))\<close> of \<^verbatim>\<open>re\<close>
  (where \<^verbatim>\<open>\d\<close> matches every decimal digit of Unicode), \<^verbatim>\<open>datetime.strptime\<close> on a
  string (\<open>None\<close> when the string does not match the format, where Python raises
  \<^verbatim>\<open>ValueError\<close>), the builtin \<^verbatim>\<open>int\<close> on a decoded JSON value, and the HTTP GET
  followed by \<^verbatim>\<open>response.json()\<close>. A request records the transport that sends it: the
  function \<^verbatim>\<open>requests.get\<close> of the module, or the \<^verbatim>\<open>get\<close> of a cached session. A
  decoded JSON number that is not an integer keeps its literal text: nothing below
  reads its value.
\<close>

record ParseResult =
  scheme :: string
  netloc :: string
  path :: string
  params :: string
  query :: string
  fragment :: string

datatype json =
    JNull
  | JBool bool
  | JInt int
  | JFloat string
  | JStr string
  | JArr "json list"
  | JObj "(string \<times> json) list"

record datetime =
  year :: int
  month :: int
  day :: int
  hour :: int
  minute :: int
  second :: int

record CachedSession =
  cache_name :: string
  backend :: string
  expore_after :: nat

datatype transport = Requests_get | Session_get CachedSession

record request =
  via :: transport
  target :: string
  query_params :: "(string \<times> string) list"

record library =
  urlparse :: "string \<Rightarrow> ParseResult"
  parse_qs :: "string \<Rightarrow> (string \<rightharpoonup> string list)"
  unquote :: "string \<Rightarrow> string"
  fullmatch :: "re_item list \<Rightarrow> string \<Rightarrow> bool"
  strptime :: "string \<Rightarrow> string \<Rightarrow> datetime option"
  py_int :: "json \<Rightarrow> error + int"
  http_get_json :: "request \<Rightarrow> error + json"

section \<open>URI classification\<close>

definition COLLECTIONS :: "string list" where
  "COLLECTIONS = [''bills'']"

definition DATE_PATTERN :: "re_item list" where
  "DATE_PATTERN =
     [Digits 4, Lit CHR ''-'', Digits 2, Lit CHR ''-'', Digits 2, Lit CHR ''T'',
      Digits 2, Lit CHR '':'', Digits 2, Lit CHR '':'', Digits 2, Lit CHR ''Z'']"

definition supports_collections ::
  "library \<Rightarrow> string list \<Rightarrow> (string \<rightharpoonup> string list) \<Rightarrow> bool" where
  "supports_collections L split_path query_string =
     (if length split_path < 4 then False
      else
        let collection = split_path ! 2;
            start_date = unquote L (split_path ! 3);
            supported_collection = (lower collection \<in> set COLLECTIONS);
            valid_start_date = fullmatch L DATE_PATTERN start_date;
            valid_end_date =
              (if length split_path = 5
               then fullmatch L DATE_PATTERN (unquote L (split_path ! 4))
               else True)
        in supported_collection
           \<and> valid_start_date
           \<and> valid_end_date
           \<and> query_string ''offset'' \<noteq> None
           \<and> query_string ''pageSize'' \<noteq> None)"

definition supports_packages :: "string list \<Rightarrow> (string \<rightharpoonup> string list) \<Rightarrow> error + bool" where
  "supports_packages split_path query_string = Inl NotImplementedError"

definition supports_published :: "string list \<Rightarrow> (string \<rightharpoonup> string list) \<Rightarrow> error + bool" where
  "supports_published split_path query_string = Inl NotImplementedError"

definition supports_related :: "string list \<Rightarrow> (string \<rightharpoonup> string list) \<Rightarrow> error + bool" where
  "supports_related split_path query_string = Inl NotImplementedError"

definition supports :: "library \<Rightarrow> string \<Rightarrow> bool \<Rightarrow> error + bool" where
  "supports L uri fast =
     (let parsed = urlparse L uri;
          query_string = parse_qs L (query parsed);
          split_path = str_split CHR ''/'' (path parsed)
      in case getitem split_path 1 of
           Inl e \<Rightarrow> Inl e
         | Inr ep \<Rightarrow>
             (case (if ep = ''collections''
                    then Inr (supports_collections L split_path query_string)
                    else if ep = ''packages''
                    then supports_packages split_path query_string
                    else if ep = ''published''
                    then supports_published split_path query_string
                    else if ep = ''related''
                    then supports_related split_path query_string
                    else Inl ProgrammingError) of
                Inl e \<Rightarrow> Inl e
              | Inr supports_endpoint \<Rightarrow>
                  Inr (netloc parsed = ''api.govinfo.gov''
                       \<and> supports_endpoint
                       \<and> query_string ''api_key'' \<noteq> None)))"

text \<open>
  The two values \<open>supports\<close> and \<^verbatim>\<open>__init__\<close> compute from a URI before anything else:
  \<^verbatim>\<open>parsed.path.split("/")\<close> and \<^verbatim>\<open>parse_qs(parsed.query)\<close>. The first element of the
  split path of an absolute path is the empty string, so the endpoint is the element
  at index 1, the collection at index 2, the start date at index 3 and the end date
  at index 4.
\<close>

abbreviation split_path_of :: "library \<Rightarrow> string \<Rightarrow> string list" where
  "split_path_of L uri \<equiv> str_split CHR ''/'' (path (urlparse L uri))"

abbreviation query_string_of :: "library \<Rightarrow> string \<Rightarrow> (string \<rightharpoonup> string list)" where
  "query_string_of L uri \<equiv> parse_qs L (query (urlparse L uri))"

section \<open>Adapter instances\<close>

text \<open>
  The attributes \<^verbatim>\<open>__init__\<close> sets. \<open>collection\<close>, \<open>start_date\<close>, \<open>end_date\<close>,
  \<open>offset\<close> and \<open>page_size\<close> exist only on an instance whose endpoint is
  \<^verbatim>\<open>collections\<close>: they are the optional \<open>attrs\<close>. \<open>end_date\<close> is \<open>None\<close> as in
  Python. The column map plays no part in the properties below and is left out.
\<close>

record collections_attrs =
  collection :: string
  start_date :: string
  end_date :: "string option"
  offset :: string
  page_size :: string

record GovInfoAPI =
  url :: string
  api_key :: string
  endpoint :: string
  attrs :: "collections_attrs option"
  session :: CachedSession

text \<open>\<^verbatim>\<open>query_string[k][0]\<close>.\<close>

definition first_value :: "(string \<rightharpoonup> string list) \<Rightarrow> string \<Rightarrow> error + string" where
  "first_value query_string k =
     (case dict_getitem query_string k of
        Inl e \<Rightarrow> Inl e
      | Inr vs \<Rightarrow> getitem vs 0)"

definition init :: "library \<Rightarrow> string \<Rightarrow> error + GovInfoAPI" where
  "init L uri =
     (let parsed = urlparse L uri;
          query_string = parse_qs L (query parsed)
      in case first_value query_string ''api_key'' of
           Inl e \<Rightarrow> Inl e
         | Inr key \<Rightarrow>
             (let split_path = str_split CHR ''/'' (path parsed)
              in case getitem split_path 1 of
                   Inl e \<Rightarrow> Inl e
                 | Inr ep \<Rightarrow>
                     (case (if ep = ''collections''
                            then (case getitem split_path 2 of
                                    Inl e \<Rightarrow> Inl e
                                  | Inr c \<Rightarrow>
                                (case getitem split_path 3 of
                                    Inl e \<Rightarrow> Inl e
                                  | Inr sd \<Rightarrow>
                                (case first_value query_string ''offset'' of
                                    Inl e \<Rightarrow> Inl e
                                  | Inr off \<Rightarrow>
                                (case first_value query_string ''pageSize'' of
                                    Inl e \<Rightarrow> Inl e
                                  | Inr ps \<Rightarrow>
                                      Inr (Some \<lparr>collection = c,
                                                 start_date = sd,
                                                 end_date =
                                                   (if length split_path = 5
                                                    then Some (split_path ! 4)
                                                    else None),
                                                 offset = off,
                                                 page_size = ps\<rparr>)))))
                            else Inr None) of
                        Inl e \<Rightarrow> Inl e
                      | Inr a \<Rightarrow>
                          Inr \<lparr>url = scheme parsed @ ''://'' @ netloc parsed,
                               api_key = key,
                               endpoint = ep,
                               attrs = a,
                               session = \<lparr>cache_name = ''govinfo_cache'',
                                          backend = ''sqlite'',
                                          expore_after = 180\<rparr>\<rparr>)))"

section \<open>Fetching rows\<close>

text \<open>
  A decoded JSON object is an association list; the dictionary it stands for holds the
  first binding of each key. \<open>subscript\<close> is \<^verbatim>\<open>v["k"]\<close> and \<open>iterate\<close> is what
  \<^verbatim>\<open>for record in v\<close> runs over, each with the \<^verbatim>\<open>TypeError\<close> Python raises on a
  value of the wrong type.
\<close>

fun subscript :: "json \<Rightarrow> string \<Rightarrow> error + json" where
  "subscript (JObj kvs) k = dict_getitem (map_of kvs) k"
| "subscript v k = Inl TypeError"

fun iterate :: "json \<Rightarrow> error + json list" where
  "iterate (JArr xs) = Inr xs"
| "iterate (JObj kvs) = Inr (map (\<lambda>kv. JStr (fst kv)) kvs)"
| "iterate (JStr s) = Inr (map (\<lambda>c. JStr [c]) s)"
| "iterate v = Inl TypeError"

record Row =
  package_id :: json
  last_modified :: datetime
  package_link :: json
  doc_class :: json
  title :: json
  congress :: int
  date_issued :: json

text \<open>\<^verbatim>\<open>datetime.strptime(v, fmt)\<close>: the first argument must be a string.\<close>

definition datetime_strptime :: "library \<Rightarrow> json \<Rightarrow> string \<Rightarrow> error + datetime" where
  "datetime_strptime L v fmt =
     (case v of
        JStr s \<Rightarrow> (case strptime L s fmt of None \<Rightarrow> Inl ValueError | Some t \<Rightarrow> Inr t)
      | _ \<Rightarrow> Inl TypeError)"

text \<open>
  The dictionary display in the body of the loop of \<^verbatim>\<open>get_rows\<close>, its entries
  evaluated in the order they are written: the first that raises ends the display.
\<close>

definition make_row :: "library \<Rightarrow> json \<Rightarrow> error + Row" where
  "make_row L rcd =
     (case subscript rcd ''packageId'' of Inl e \<Rightarrow> Inl e | Inr pid \<Rightarrow>
     (case subscript rcd ''lastModified'' of Inl e \<Rightarrow> Inl e | Inr lm \<Rightarrow>
     (case datetime_strptime L lm ''%Y-%m-%dT%H:%M:%SZ'' of Inl e \<Rightarrow> Inl e | Inr ts \<Rightarrow>
     (case subscript rcd ''packageLink'' of Inl e \<Rightarrow> Inl e | Inr pl \<Rightarrow>
     (case subscript rcd ''docClass'' of Inl e \<Rightarrow> Inl e | Inr dc \<Rightarrow>
     (case subscript rcd ''title'' of Inl e \<Rightarrow> Inl e | Inr ti \<Rightarrow>
     (case subscript rcd ''congress'' of Inl e \<Rightarrow> Inl e | Inr cg \<Rightarrow>
     (case py_int L cg of Inl e \<Rightarrow> Inl e | Inr n \<Rightarrow>
     (case subscript rcd ''dateIssued'' of Inl e \<Rightarrow> Inl e | Inr di \<Rightarrow>
        Inr \<lparr>package_id = pid,
             last_modified = ts,
             package_link = pl,
             doc_class = dc,
             title = ti,
             congress = n,
             date_issued = di\<rparr>)))))))))"

text \<open>
  \<^verbatim>\<open>get_rows\<close> is a generator. Run to its end it has sent some requests, yielded some
  rows to its caller, in this order, and then either returned (\<open>raised = None\<close>) or
  raised. The loop yields the row of a record before it looks at the next record.
\<close>

record gen_result =
  sent :: "request list"
  yielded :: "Row list"
  raised :: "error option"

fun yield_rows :: "library \<Rightarrow> json list \<Rightarrow> Row list \<times> error option" where
  "yield_rows L [] = ([], None)"
| "yield_rows L (rcd # rest) =
     (case make_row L rcd of
        Inl e \<Rightarrow> ([], Some e)
      | Inr row \<Rightarrow> (row # fst (yield_rows L rest), snd (yield_rows L rest)))"

definition get_rows :: "library \<Rightarrow> GovInfoAPI \<Rightarrow> 'bounds \<Rightarrow> 'order \<Rightarrow> gen_result" where
  "get_rows L self bounds order =
     (let base_url = url self @ ''/'' @ endpoint self
      in case (if endpoint self = ''collections''
               then (case attrs self of
                       None \<Rightarrow> Inl AttributeError
                     | Some a \<Rightarrow>
                         Inr \<lparr>via = Requests_get,
                              target = base_url @ ''/'' @ collection a @ ''/'' @ start_date a @ ''/''
                                       @ (case end_date a of None \<Rightarrow> [] | Some e \<Rightarrow> e),
                              query_params = [(''offset'', offset a),
                                              (''pageSize'', page_size a),
                                              (''api_key'', api_key self)]\<rparr>)
               else Inl UnboundLocalError) of
           Inl e \<Rightarrow> \<lparr>sent = [], yielded = [], raised = Some e\<rparr>
         | Inr req \<Rightarrow>
             (case http_get_json L req of
                Inl e \<Rightarrow> \<lparr>sent = [req], yielded = [], raised = Some e\<rparr>
              | Inr payload \<Rightarrow>
                  (case subscript payload ''packages'' of
                     Inl e \<Rightarrow> \<lparr>sent = [req], yielded = [], raised = Some e\<rparr>
                   | Inr packages \<Rightarrow>
                       (case iterate packages of
                          Inl e \<Rightarrow> \<lparr>sent = [req], yielded = [], raised = Some e\<rparr>
                        | Inr records \<Rightarrow>
                            \<lparr>sent = [req],
                             yielded = fst (yield_rows L records),
                             raised = snd (yield_rows L records)\<rparr>))))"

text \<open>
  The spec's words for the row of a record (its section 4.4), to compare the loop body
  with: \<open>package_id\<close>, \<open>package_link\<close>, \<open>doc_class\<close>, \<open>title\<close> and \<open>date_issued\<close> are the
  record's \<^verbatim>\<open>packageId\<close>, \<^verbatim>\<open>packageLink\<close>, \<^verbatim>\<open>docClass\<close>, \<^verbatim>\<open>title\<close> and \<^verbatim>\<open>dateIssued\<close>
  as they are, \<open>last_modified\<close> is the timestamp parsed from the string
  \<^verbatim>\<open>lastModified\<close> with the strict pattern, and \<open>congress\<close> is the integer coercion of
  \<^verbatim>\<open>congress\<close>.
\<close>

definition spec_row :: "library \<Rightarrow> json \<Rightarrow> Row \<Rightarrow> bool" where
  "spec_row L rcd row =
     (subscript rcd ''packageId'' = Inr (package_id row)
      \<and> (case subscript rcd ''lastModified'' of
            Inr (JStr s) \<Rightarrow> strptime L s ''%Y-%m-%dT%H:%M:%SZ'' = Some (last_modified row)
          | _ \<Rightarrow> False)
      \<and> subscript rcd ''packageLink'' = Inr (package_link row)
      \<and> subscript rcd ''docClass'' = Inr (doc_class row)
      \<and> subscript rcd ''title'' = Inr (title row)
      \<and> (case subscript rcd ''congress'' of
            Inr c \<Rightarrow> py_int L c = Inr (congress row)
          | Inl e \<Rightarrow> False)
      \<and> subscript rcd ''dateIssued'' = Inr (date_issued row))"

section \<open>Example inputs\<close>

text \<open>
  The URIs, query strings, timestamps and responses that the examples below run on.
  \<open>api_uri p q\<close> is the URI of the API host with path \<open>p\<close> and query \<open>q\<close>, and
  \<open>api_result p q\<close> is what \<^verbatim>\<open>urlparse\<close> returns for it. Of the library functions
  the example library fixes only the values on these inputs: the parse of each listed
  URI, the dictionary of each listed query string, the decoding and the match of the
  listed path segments, one timestamp that matches the format, and the integers of
  the numerals \<^verbatim>\<open>118\<close> and \<^verbatim>\<open>117\<close>.
\<close>

definition api_uri :: "string \<Rightarrow> string \<Rightarrow> string" where
  "api_uri p q = ''https://api.govinfo.gov'' @ p @ (if q = [] then [] else CHR ''?'' # q)"

definition api_result :: "string \<Rightarrow> string \<Rightarrow> ParseResult" where
  "api_result p q =
     \<lparr>scheme = ''https'', netloc = ''api.govinfo.gov'', path = p,
      params = [], query = q, fragment = []\<rparr>"

definition example_uris :: "(string \<times> string) list" where
  "example_uris =
     [(''/collections/BILLS/2018-01-28T20%3A18%3A10Z'', ''offset=0&pageSize=1000&api_key=K''),
      (''/collections/bills/2018-01-28T20%3A18%3A10Z'', ''offset=0&pageSize=1000&api_key=K''),
      (''/Collections/BILLS/2018-01-28T20%3A18%3A10Z'', ''offset=0&pageSize=1000&api_key=K''),
      (''/collections/BILLS/2018-01-28T20%3A18%3A1%D9%A0Z'', ''offset=0&pageSize=1000&api_key=K''),
      (''/collections/BILLS/2018-01-28T20%3A18%3A10Z/2018-01-29T20%3A18%3A10Z'',
       ''offset=0&pageSize=1000&api_key=K''),
      (''/collections/BILLS/2018-01-28T20%3A18%3A10Z/2018-10-21T13:31:42.363926'',
       ''offset=0&pageSize=1000&api_key=K''),
      (''/collections/BILLS/2018-01-28T20%3A18%3A10Z/2018-10-21T13:31:42.363926/'',
       ''offset=0&pageSize=1000&api_key=K''),
      (''/collections/BILLS/2018-01-28T20%3A18%3A10Z/yesterday/today'',
       ''offset=0&pageSize=1000&api_key=K''),
      (''/collections/BILLS/2018-01-28T20%3A18%3A10Z/2018-01-29/json'',
       ''offset=0&pageSize=1000&api_key=K''),
      (''/collections/BILLS/2018-01-28T20%3A18%3A10Z'', ''offset=0&api_key=K''),
      (''/collections/BILLS/2023-02-28T20%3A18%3A10Z/2023-03-01T20%3A18%3A10Z'',
       ''offset=0&pageSize=1&api_key=K''),
      (''/packages/BILLS-118hr796ih/summary'', ''api_key=K''),
      (''/search'', ''api_key=K''),
      ([], [])]"

definition example_urlparse :: "string \<Rightarrow> ParseResult" where
  "example_urlparse uri =
     (case find (\<lambda>pq. api_uri (fst pq) (snd pq) = uri) example_uris of
        Some pq \<Rightarrow> api_result (fst pq) (snd pq)
      | None \<Rightarrow> api_result [] [])"

definition example_parse_qs :: "string \<Rightarrow> (string \<rightharpoonup> string list)" where
  "example_parse_qs q =
     (if q = ''offset=0&pageSize=1000&api_key=K''
      then [''offset'' \<mapsto> [''0''], ''pageSize'' \<mapsto> [''1000''], ''api_key'' \<mapsto> [''K'']]
      else if q = ''offset=0&pageSize=1&api_key=K''
      then [''offset'' \<mapsto> [''0''], ''pageSize'' \<mapsto> [''1''], ''api_key'' \<mapsto> [''K'']]
      else if q = ''offset=0&api_key=K''
      then [''offset'' \<mapsto> [''0''], ''api_key'' \<mapsto> [''K'']]
      else if q = ''api_key=K''
      then [''api_key'' \<mapsto> [''K'']]
      else Map.empty)"

text \<open>
  The two library functions on ASCII text, for the example library. \<open>ascii_unquote\<close>
  turns an escape \<^verbatim>\<open>%XY\<close> with two hexadecimal digits into the character of that code
  and leaves a \<^verbatim>\<open>%\<close> not followed by two hexadecimal digits; it is
  \<^verbatim>\<open>urllib.parse.unquote\<close> on a string whose escapes all have a code below 128.
  \<open>ascii_fullmatch\<close> takes \<^verbatim>\<open>\d\<close> as \<^verbatim>\<open>0\<close> to \<^verbatim>\<open>9\<close>; it is the full match of \<^verbatim>\<open>re\<close>
  on an ASCII string. Every example below decodes and matches ASCII strings whose
  escapes are \<^verbatim>\<open>%3A\<close> only.
\<close>

definition hexval :: "char \<Rightarrow> nat option" where
  "hexval c =
     (let n = (of_char c :: nat)
      in if 48 \<le> n \<and> n \<le> 57 then Some (n - 48)
         else if 65 \<le> n \<and> n \<le> 70 then Some (n - 55)
         else if 97 \<le> n \<and> n \<le> 102 then Some (n - 87)
         else None)"

fun ascii_unquote :: "string \<Rightarrow> string" where
  "ascii_unquote (c # h1 # h2 # cs) =
     (if c = CHR ''%'' then
        (case (hexval h1, hexval h2) of
           (Some a, Some b) \<Rightarrow> char_of (16 * a + b) # ascii_unquote cs
         | _ \<Rightarrow> c # ascii_unquote (h1 # h2 # cs))
      else c # ascii_unquote (h1 # h2 # cs))"
| "ascii_unquote cs = cs"

definition is_digit :: "char \<Rightarrow> bool" where
  "is_digit c = (let n = (of_char c :: nat) in 48 \<le> n \<and> n \<le> 57)"

fun ascii_fullmatch :: "re_item list \<Rightarrow> string \<Rightarrow> bool" where
  "ascii_fullmatch [] s = (s = [])"
| "ascii_fullmatch (Lit c # r) s =
     (case s of [] \<Rightarrow> False | d # t \<Rightarrow> d = c \<and> ascii_fullmatch r t)"
| "ascii_fullmatch (Digits n # r) s =
     (n \<le> length s \<and> list_all is_digit (take n s) \<and> ascii_fullmatch r (drop n s))"

definition example_strptime :: "string \<Rightarrow> string \<Rightarrow> datetime option" where
  "example_strptime s fmt =
     (if fmt = ''%Y-%m-%dT%H:%M:%SZ'' \<and> s = ''2023-03-01T10:29:21Z''
      then Some \<lparr>year = 2023, month = 3, day = 1, hour = 10, minute = 29, second = 21\<rparr>
      else None)"

definition example_py_int :: "json \<Rightarrow> error + int" where
  "example_py_int v =
     (case v of
        JInt n \<Rightarrow> Inr n
      | JStr s \<Rightarrow>
          (if s = ''118'' then Inr 118 else if s = ''117'' then Inr 117 else Inl ValueError)
      | _ \<Rightarrow> Inl TypeError)"

definition example_library :: "json \<Rightarrow> library" where
  "example_library payload =
     \<lparr>urlparse = example_urlparse,
      parse_qs = example_parse_qs,
      unquote = ascii_unquote,
      fullmatch = ascii_fullmatch,
      strptime = example_strptime,
      py_int = example_py_int,
      http_get_json = (\<lambda>req. Inr payload)\<rparr>"

text \<open>
  The example library on one segment beyond ASCII: the escapes \<^verbatim>\<open>%D9%A0\<close> are the
  UTF-8 encoding of the digit zero of the Arabic script (U+0660), which \<^verbatim>\<open>unquote\<close>
  decodes to that one character and \<^verbatim>\<open>\d\<close> matches.
\<close>

definition arabic_zero_date :: string where
  "arabic_zero_date = ''2018-01-28T20:18:1'' @ [char_of (217 :: nat), char_of (160 :: nat)] @ ''Z''"

definition example_library_utf8 :: library where
  "example_library_utf8 =
     (example_library JNull)
       \<lparr>unquote := (\<lambda>s. if s = ''2018-01-28T20%3A18%3A1%D9%A0Z''
                         then arabic_zero_date else ascii_unquote s),
        fullmatch := (\<lambda>r s. if r = DATE_PATTERN \<and> s = arabic_zero_date
                             then True else ascii_fullmatch r s)\<rparr>"

text \<open>
  The record and the response of the repository's test with data (the spec's scenario
  D), its response without data, a response whose second record carries a timestamp
  without the \<^verbatim>\<open>T\<close> and the \<^verbatim>\<open>Z\<close>, a response that is an error object of the API
  and has no \<^verbatim>\<open>packages\<close>, and the instance \<^verbatim>\<open>__init__\<close> builds from the URI of that
  test.
\<close>

definition example_package :: "string \<Rightarrow> string \<Rightarrow> string \<Rightarrow> json" where
  "example_package pid modified cg =
     JObj [(''packageId'', JStr pid),
           (''lastModified'', JStr modified),
           (''packageLink'', JStr (''https://api.govinfo.gov/packages/'' @ pid @ ''/summary'')),
           (''docClass'', JStr ''hr''),
           (''title'', JStr ''Supply Chain Mapping and Monitoring Act''),
           (''congress'', JStr cg),
           (''dateIssued'', JStr ''2023-02-02'')]"

definition govinfo_response :: json where
  "govinfo_response =
     JObj [(''count'', JInt 1),
           (''packages'', JArr [example_package ''BILLS-118hr796ih'' ''2023-03-01T10:29:21Z'' ''118''])]"

definition govinfo_empty_response :: json where
  "govinfo_empty_response = JObj [(''count'', JInt 0), (''packages'', JArr [])]"

definition second_timestamp_unparsed_response :: json where
  "second_timestamp_unparsed_response =
     JObj [(''count'', JInt 2),
           (''packages'', JArr [example_package ''BILLS-118hr796ih'' ''2023-03-01T10:29:21Z'' ''118'',
                                example_package ''BILLS-117s100is'' ''2023-03-01 10:29:21'' ''117''])]"

definition api_error_response :: json where
  "api_error_response = JObj [(''error'', JObj [(''code'', JStr ''API_KEY_INVALID'')])]"

definition example_instance :: GovInfoAPI where
  "example_instance =
     \<lparr>url = ''https://api.govinfo.gov'',
      api_key = ''K'',
      endpoint = ''collections'',
      attrs = Some \<lparr>collection = ''BILLS'',
                     start_date = ''2023-02-28T20%3A18%3A10Z'',
                     end_date = Some ''2023-03-01T20%3A18%3A10Z'',
                     offset = ''0'',
                     page_size = ''1''\<rparr>,
      session = \<lparr>cache_name = ''govinfo_cache'', backend = ''sqlite'', expore_after = 180\<rparr>\<rparr>"

section \<open>Facts about classification\<close>

lemma supports_collections_iff:
  "supports_collections L sp qs =
     (4 \<le> length sp
      \<and> lower (sp ! 2) \<in> set COLLECTIONS
      \<and> fullmatch L DATE_PATTERN (unquote L (sp ! 3))
      \<and> (length sp = 5 \<longrightarrow> fullmatch L DATE_PATTERN (unquote L (sp ! 4)))
      \<and> qs ''offset'' \<noteq> None
      \<and> qs ''pageSize'' \<noteq> None)"
  by (auto simp add: supports_collections_def Let_def)

lemma supports_at_collections:
  assumes "getitem (split_path_of L uri) 1 = Inr ''collections''"
  shows "supports L uri fast =
           Inr (netloc (urlparse L uri) = ''api.govinfo.gov''
                \<and> supports_collections L (split_path_of L uri) (query_string_of L uri)
                \<and> query_string_of L uri ''api_key'' \<noteq> None)"
  using assms by (simp add: supports_def Let_def)

lemma supports_at_other:
  assumes "getitem (split_path_of L uri) 1 = Inr ep"
    and "ep \<noteq> ''collections''"
  shows "supports L uri fast =
           Inl (if ep = ''packages'' \<or> ep = ''published'' \<or> ep = ''related''
                then NotImplementedError else ProgrammingError)"
  using assms
  by (simp add: supports_def Let_def supports_packages_def supports_published_def
      supports_related_def)

lemma supports_no_segment:
  assumes "getitem (split_path_of L uri) 1 = Inl e"
  shows "supports L uri fast = Inl e"
  using assms by (simp add: supports_def Let_def)

lemma lower_endpoint_names:
  "lower ''packages'' \<noteq> ''collections''"
  "lower ''published'' \<noteq> ''collections''"
  "lower ''related'' \<noteq> ''collections''"
  by code_simp+

lemma supports_without_slash:
  assumes "CHR ''/'' \<notin> set (path (urlparse L uri))"
  shows "supports L uri fast = Inl IndexError"
proof -
  have "CHR ''/'' \<notin> set s \<Longrightarrow> str_split CHR ''/'' s = [s]" for s
    by (induction s) auto
  with assms have "split_path_of L uri = [path (urlparse L uri)]" by simp
  then have "getitem (split_path_of L uri) 1 = Inl IndexError"
    by (simp add: getitem_def)
  from supports_no_segment [OF this] show ?thesis .
qed

section \<open>Facts about fetching\<close>

lemma case_sum_Inr_iff:
  "((case m of Inl e \<Rightarrow> Inl e | Inr x \<Rightarrow> f x) = Inr r) = (\<exists>x. m = Inr x \<and> f x = Inr r)"
  by (cases m) auto

lemma datetime_strptime_Inr_iff:
  "(datetime_strptime L v fmt = Inr t) = (\<exists>s. v = JStr s \<and> strptime L s fmt = Some t)"
  by (cases v) (auto simp add: datetime_strptime_def split: option.splits)

lemma make_row_fields:
  assumes "make_row L rcd = Inr row"
  shows "subscript rcd ''packageId'' = Inr (package_id row)
       \<and> (\<exists>s. subscript rcd ''lastModified'' = Inr (JStr s)
              \<and> strptime L s ''%Y-%m-%dT%H:%M:%SZ'' = Some (last_modified row))
       \<and> subscript rcd ''packageLink'' = Inr (package_link row)
       \<and> subscript rcd ''docClass'' = Inr (doc_class row)
       \<and> subscript rcd ''title'' = Inr (title row)
       \<and> (\<exists>c. subscript rcd ''congress'' = Inr c \<and> py_int L c = Inr (congress row))
       \<and> subscript rcd ''dateIssued'' = Inr (date_issued row)"
proof -
  from assms obtain pid lm ts pl dc ti cg n di where
    "subscript rcd ''packageId'' = Inr pid"
    "subscript rcd ''lastModified'' = Inr lm"
    "datetime_strptime L lm ''%Y-%m-%dT%H:%M:%SZ'' = Inr ts"
    "subscript rcd ''packageLink'' = Inr pl"
    "subscript rcd ''docClass'' = Inr dc"
    "subscript rcd ''title'' = Inr ti"
    "subscript rcd ''congress'' = Inr cg"
    "py_int L cg = Inr n"
    "subscript rcd ''dateIssued'' = Inr di"
    "row = \<lparr>package_id = pid, last_modified = ts, package_link = pl, doc_class = dc,
            title = ti, congress = n, date_issued = di\<rparr>"
    unfolding make_row_def case_sum_Inr_iff by blast
  then show ?thesis
    by (simp add: datetime_strptime_Inr_iff)
qed

lemma make_row_iff:
  "(make_row L rcd = Inr row) = spec_row L rcd row"
proof
  assume "make_row L rcd = Inr row"
  from make_row_fields [OF this] show "spec_row L rcd row"
    by (auto simp add: spec_row_def)
next
  assume "spec_row L rcd row"
  then obtain s c where
    "subscript rcd ''packageId'' = Inr (package_id row)"
    "subscript rcd ''lastModified'' = Inr (JStr s)"
    "strptime L s ''%Y-%m-%dT%H:%M:%SZ'' = Some (last_modified row)"
    "subscript rcd ''packageLink'' = Inr (package_link row)"
    "subscript rcd ''docClass'' = Inr (doc_class row)"
    "subscript rcd ''title'' = Inr (title row)"
    "subscript rcd ''congress'' = Inr c"
    "py_int L c = Inr (congress row)"
    "subscript rcd ''dateIssued'' = Inr (date_issued row)"
    unfolding spec_row_def by (auto split: sum.splits json.splits)
  then show "make_row L rcd = Inr row"
    by (simp add: make_row_def datetime_strptime_def)
qed

lemma yield_rows_prefix:
  assumes "list_all2 (\<lambda>r row. make_row L r = Inr row) good rows"
  shows "fst (yield_rows L (good @ rest)) = rows @ fst (yield_rows L rest)
       \<and> snd (yield_rows L (good @ rest)) = snd (yield_rows L rest)"
  using assms by (induction rule: list_all2_induct) auto

lemma yield_rows_nth:
  "i < length (fst (yield_rows L rs)) \<Longrightarrow>
     i < length rs \<and> make_row L (rs ! i) = Inr (fst (yield_rows L rs) ! i)"
proof (induction rs arbitrary: i)
  case Nil
  then show ?case by simp
next
  case (Cons r rs)
  then show ?case
    by (cases i) (auto split: sum.splits)
qed

lemma yield_rows_all:
  "list_all (\<lambda>r. isl (make_row L r) = False) rs \<Longrightarrow>
     length (fst (yield_rows L rs)) = length rs \<and> snd (yield_rows L rs) = None"
  by (induction rs) (auto split: sum.splits)

lemma yield_rows_stops:
  assumes "map (make_row L) good = map Inr rows"
    and "make_row L bad = Inl e"
  shows "yield_rows L (good @ bad # rest) = (rows, Some e)"
  using assms
proof (induction good arbitrary: rows)
  case Nil
  then show ?case by simp
next
  case (Cons r good)
  then obtain row rows' where "rows = row # rows'" "make_row L r = Inr row"
    "map (make_row L) good = map Inr rows'"
    by (cases rows) auto
  with Cons show ?case by simp
qed

lemma get_rows_no_request:
  assumes "endpoint self \<noteq> ''collections'' \<or> attrs self = None"
  shows "sent (get_rows L self bounds order) = []"
  using assms by (auto simp add: get_rows_def Let_def)

lemma get_rows_with_request:
  assumes "endpoint self = ''collections''" and "attrs self = Some a"
    and "req = \<lparr>via = Requests_get,
             target = url self @ ''/'' @ endpoint self @ ''/'' @ collection a @ ''/''
                      @ start_date a @ ''/'' @ (case end_date a of None \<Rightarrow> [] | Some e \<Rightarrow> e),
             query_params = [(''offset'', offset a),
                             (''pageSize'', page_size a),
                             (''api_key'', api_key self)]\<rparr>"
  shows "get_rows L self bounds order =
           (case http_get_json L req of
              Inl e \<Rightarrow> \<lparr>sent = [req], yielded = [], raised = Some e\<rparr>
            | Inr payload \<Rightarrow>
                (case subscript payload ''packages'' of
                   Inl e \<Rightarrow> \<lparr>sent = [req], yielded = [], raised = Some e\<rparr>
                 | Inr packages \<Rightarrow>
                     (case iterate packages of
                        Inl e \<Rightarrow> \<lparr>sent = [req], yielded = [], raised = Some e\<rparr>
                      | Inr records \<Rightarrow>
                          \<lparr>sent = [req],
                           yielded = fst (yield_rows L records),
                           raised = snd (yield_rows L records)\<rparr>)))"
  unfolding get_rows_def Let_def using assms by (simp split: sum.splits)

lemma sent_after_request:
  "sent (case m of
           Inl e \<Rightarrow> \<lparr>sent = [req], yielded = [], raised = Some e\<rparr>
         | Inr payload \<Rightarrow>
             (case f payload of
                Inl e \<Rightarrow> \<lparr>sent = [req], yielded = [], raised = Some e\<rparr>
              | Inr packages \<Rightarrow>
                  (case g packages of
                     Inl e \<Rightarrow> \<lparr>sent = [req], yielded = [], raised = Some e\<rparr>
                   | Inr records \<Rightarrow>
                       \<lparr>sent = [req], yielded = h records, raised = k records\<rparr>))) = [req]"
  by (simp split: sum.splits)

lemma get_rows_request:
  assumes "endpoint self = ''collections''" and "attrs self = Some a"
  shows "sent (get_rows L self bounds order) =
           [\<lparr>via = Requests_get,
             target = url self @ ''/'' @ endpoint self @ ''/'' @ collection a @ ''/''
                      @ start_date a @ ''/'' @ (case end_date a of None \<Rightarrow> [] | Some e \<Rightarrow> e),
             query_params = [(''offset'', offset a),
                             (''pageSize'', page_size a),
                             (''api_key'', api_key self)]\<rparr>]"
  unfolding get_rows_with_request [OF assms refl] sent_after_request ..

lemma get_rows_after_request:
  assumes "sent (get_rows L self bounds order) = [req]"
  shows "get_rows L self bounds order =
           (case http_get_json L req of
              Inl e \<Rightarrow> \<lparr>sent = [req], yielded = [], raised = Some e\<rparr>
            | Inr payload \<Rightarrow>
                (case subscript payload ''packages'' of
                   Inl e \<Rightarrow> \<lparr>sent = [req], yielded = [], raised = Some e\<rparr>
                 | Inr packages \<Rightarrow>
                     (case iterate packages of
                        Inl e \<Rightarrow> \<lparr>sent = [req], yielded = [], raised = Some e\<rparr>
                      | Inr records \<Rightarrow>
                          \<lparr>sent = [req],
                           yielded = fst (yield_rows L records),
                           raised = snd (yield_rows L records)\<rparr>)))"
proof (cases "endpoint self = ''collections''")
  case False
  with get_rows_no_request [of self L bounds order] assms show ?thesis by simp
next
  case True
  show ?thesis
  proof (cases "attrs self")
    case None
    with get_rows_no_request [of self L bounds order] assms show ?thesis by simp
  next
    case (Some a)
    from get_rows_request [OF True Some, of L bounds order] assms
    have "req = \<lparr>via = Requests_get,
             target = url self @ ''/'' @ endpoint self @ ''/'' @ collection a @ ''/''
                      @ start_date a @ ''/'' @ (case end_date a of None \<Rightarrow> [] | Some e \<Rightarrow> e),
             query_params = [(''offset'', offset a),
                             (''pageSize'', page_size a),
                             (''api_key'', api_key self)]\<rparr>"
      by simp
    from get_rows_with_request [OF True Some this] show ?thesis .
  qed
qed

lemma get_rows_transport:
  "list_all (\<lambda>r. via r = Requests_get) (sent (get_rows L self bounds order))"
proof (cases "endpoint self = ''collections''")
  case False
  with get_rows_no_request [of self L bounds order] show ?thesis by simp
next
  case True
  show ?thesis
  proof (cases "attrs self")
    case None
    with get_rows_no_request [of self L bounds order] show ?thesis by simp
  next
    case (Some a)
    from get_rows_request [OF True Some, of L bounds order] show ?thesis by simp
  qed
qed

lemma example_request:
  "sent (get_rows (example_library payload) example_instance () ()) =
     [\<lparr>via = Requests_get,
       target = ''https://api.govinfo.gov/collections/BILLS/2023-02-28T20%3A18%3A10Z/2023-03-01T20%3A18%3A10Z'',
       query_params = [(''offset'', ''0''), (''pageSize'', ''1''), (''api_key'', ''K'')]\<rparr>]"
  using get_rows_request [of example_instance _ "example_library payload" "()" "()"]
  by (simp add: example_instance_def)

lemma example_payload:
  "http_get_json (example_library payload) req = Inr payload"
  by (simp add: example_library_def)

section \<open>The claims\<close>

subsection \<open>C1: which collections URIs are accepted\<close>

text \<open>
  C1, as the code has it. For a URI whose segment at index 1 of the split path is
  \<^verbatim>\<open>collections\<close>, \<open>supports\<close> returns a truth value, and it is true exactly when the
  authority is the API host, the split path has at least four elements, the collection
  lowercased is in \<open>COLLECTIONS\<close>, the decoded start date fully matches \<open>DATE_PATTERN\<close>,
  the decoded fifth element fully matches it when the split path has exactly five
  elements, and the query dictionary has the keys \<^verbatim>\<open>offset\<close>, \<^verbatim>\<open>pageSize\<close> and
  \<^verbatim>\<open>api_key\<close>. The collection is matched without regard to case: another URI that
  differs only in the case of the collection gets the same answer. The endpoint is
  matched with regard to case: a segment that is \<^verbatim>\<open>collections\<close> only after
  lowercasing is not taken for it, and \<open>supports\<close> raises \<^verbatim>\<open>ProgrammingError\<close>. The
  claim's condition on every present end date holds for a split path of exactly five
  elements only.
\<close>

theorem collections_classification:
  assumes sp: "split_path_of L uri = sp"
  shows "(getitem sp 1 = Inr ''collections'' \<longrightarrow>
            supports L uri fast =
              Inr (netloc (urlparse L uri) = ''api.govinfo.gov''
                   \<and> 4 \<le> length sp
                   \<and> lower (sp ! 2) \<in> set COLLECTIONS
                   \<and> fullmatch L DATE_PATTERN (unquote L (sp ! 3))
                   \<and> (length sp = 5 \<longrightarrow> fullmatch L DATE_PATTERN (unquote L (sp ! 4)))
                   \<and> query_string_of L uri ''offset'' \<noteq> None
                   \<and> query_string_of L uri ''pageSize'' \<noteq> None
                   \<and> query_string_of L uri ''api_key'' \<noteq> None))
       \<and> (\<forall>uri' c. getitem sp 1 = Inr ''collections''
            \<and> split_path_of L uri' = sp[2 := c]
            \<and> lower c = lower (sp ! 2)
            \<and> netloc (urlparse L uri') = netloc (urlparse L uri)
            \<and> query (urlparse L uri') = query (urlparse L uri)
            \<longrightarrow> supports L uri' fast = supports L uri fast)
       \<and> (\<forall>ep. getitem sp 1 = Inr ep \<and> lower ep = ''collections'' \<and> ep \<noteq> ''collections''
            \<longrightarrow> supports L uri fast = Inl ProgrammingError)"
proof (intro conjI allI impI)
  assume ep: "getitem sp 1 = Inr ''collections''"
  with sp have "getitem (split_path_of L uri) 1 = Inr ''collections''" by simp
  from supports_at_collections [OF this] sp
  show "supports L uri fast =
              Inr (netloc (urlparse L uri) = ''api.govinfo.gov''
                   \<and> 4 \<le> length sp
                   \<and> lower (sp ! 2) \<in> set COLLECTIONS
                   \<and> fullmatch L DATE_PATTERN (unquote L (sp ! 3))
                   \<and> (length sp = 5 \<longrightarrow> fullmatch L DATE_PATTERN (unquote L (sp ! 4)))
                   \<and> query_string_of L uri ''offset'' \<noteq> None
                   \<and> query_string_of L uri ''pageSize'' \<noteq> None
                   \<and> query_string_of L uri ''api_key'' \<noteq> None)"
    by (simp add: supports_collections_iff)
next
  fix uri' c
  assume h: "getitem sp 1 = Inr ''collections''
            \<and> split_path_of L uri' = sp[2 := c]
            \<and> lower c = lower (sp ! 2)
            \<and> netloc (urlparse L uri') = netloc (urlparse L uri)
            \<and> query (urlparse L uri') = query (urlparse L uri)"
  then have e1: "getitem (split_path_of L uri) 1 = Inr ''collections''"
    using sp by simp
  from h have e2: "getitem (split_path_of L uri') 1 = Inr ''collections''"
    by (auto simp add: getitem_def split: if_splits)
  from h have same: "split_path_of L uri' ! 3 = sp ! 3" "split_path_of L uri' ! 4 = sp ! 4"
    "length (split_path_of L uri') = length sp"
    "4 \<le> length sp \<Longrightarrow> lower (split_path_of L uri' ! 2) = lower (sp ! 2)"
    by simp_all
  show "supports L uri' fast = supports L uri fast"
    unfolding supports_at_collections [OF e1] supports_at_collections [OF e2]
      supports_collections_iff
    using h same sp by auto
next
  fix ep
  assume h: "getitem sp 1 = Inr ep \<and> lower ep = ''collections'' \<and> ep \<noteq> ''collections''"
  then have "ep \<noteq> ''packages''" "ep \<noteq> ''published''" "ep \<noteq> ''related''"
    using lower_endpoint_names by auto
  with h sp supports_at_other [of L uri ep fast]
  show "supports L uri fast = Inl ProgrammingError" by simp
qed

text \<open>
  The theorem at the URI of the spec's scenario A, at the same URI with the collection
  in lower case, at the same URI with the endpoint capitalised, and at a URI whose
  start date ends in an escaped digit of another script, which is accepted.
\<close>

theorem collections_classification_witness:
  "supports (example_library JNull)
     (api_uri ''/collections/BILLS/2018-01-28T20%3A18%3A10Z'' ''offset=0&pageSize=1000&api_key=K'')
     True = Inr True
   \<and> supports (example_library JNull)
     (api_uri ''/collections/bills/2018-01-28T20%3A18%3A10Z'' ''offset=0&pageSize=1000&api_key=K'')
     True =
     supports (example_library JNull)
     (api_uri ''/collections/BILLS/2018-01-28T20%3A18%3A10Z'' ''offset=0&pageSize=1000&api_key=K'')
     True
   \<and> supports (example_library JNull)
     (api_uri ''/Collections/BILLS/2018-01-28T20%3A18%3A10Z'' ''offset=0&pageSize=1000&api_key=K'')
     True = Inl ProgrammingError
   \<and> supports example_library_utf8
     (api_uri ''/collections/BILLS/2018-01-28T20%3A18%3A1%D9%A0Z''
        ''offset=0&pageSize=1000&api_key=K'')
     True = Inr True"
proof -
  let ?L = "example_library JNull"
  let ?U = "example_library_utf8"
  let ?Z = "api_uri ''/collections/BILLS/2018-01-28T20%3A18%3A1%D9%A0Z''
        ''offset=0&pageSize=1000&api_key=K''"
  let ?A = "api_uri ''/collections/BILLS/2018-01-28T20%3A18%3A10Z'' ''offset=0&pageSize=1000&api_key=K''"
  let ?a = "api_uri ''/collections/bills/2018-01-28T20%3A18%3A10Z'' ''offset=0&pageSize=1000&api_key=K''"
  let ?C = "api_uri ''/Collections/BILLS/2018-01-28T20%3A18%3A10Z'' ''offset=0&pageSize=1000&api_key=K''"
  have spA: "split_path_of ?L ?A = [[], ''collections'', ''BILLS'', ''2018-01-28T20%3A18%3A10Z'']"
    by code_simp
  have spC: "split_path_of ?L ?C = [[], ''Collections'', ''BILLS'', ''2018-01-28T20%3A18%3A10Z'']"
    by code_simp
  have valA: "(netloc (urlparse ?L ?A) = ''api.govinfo.gov''
                   \<and> lower ''BILLS'' \<in> set COLLECTIONS
                   \<and> fullmatch (example_library JNull) DATE_PATTERN
         (unquote (example_library JNull) ''2018-01-28T20%3A18%3A10Z'')
                   \<and> query_string_of ?L ?A ''offset'' \<noteq> None
                   \<and> query_string_of ?L ?A ''pageSize'' \<noteq> None
                   \<and> query_string_of ?L ?A ''api_key'' \<noteq> None)"
    by code_simp
  have var: "split_path_of ?L ?a = [[], ''collections'', ''BILLS'', ''2018-01-28T20%3A18%3A10Z''][2 := ''bills'']
      \<and> lower ''bills'' = lower ''BILLS''
      \<and> netloc (urlparse ?L ?a) = netloc (urlparse ?L ?A)
      \<and> query (urlparse ?L ?a) = query (urlparse ?L ?A)"
    by code_simp
  have lc: "lower ''Collections'' = ''collections''" by code_simp
  note A = collections_classification [OF spA, of True]
  note C = collections_classification [OF spC, of True]
  from A valA have 1: "supports ?L ?A True = Inr True"
    by (simp add: getitem_def)
  from A var have 2: "supports ?L ?a True = supports ?L ?A True"
    by (simp add: getitem_def)
  from C lc have 3: "supports ?L ?C True = Inl ProgrammingError"
    by (simp add: getitem_def)
  have spZ: "split_path_of ?U ?Z
               = [[], ''collections'', ''BILLS'', ''2018-01-28T20%3A18%3A1%D9%A0Z'']"
    by code_simp
  have valZ: "netloc (urlparse ?U ?Z) = ''api.govinfo.gov''
                   \<and> lower ''BILLS'' \<in> set COLLECTIONS
                   \<and> fullmatch ?U DATE_PATTERN (unquote ?U ''2018-01-28T20%3A18%3A1%D9%A0Z'')
                   \<and> query_string_of ?U ?Z ''offset'' \<noteq> None
                   \<and> query_string_of ?U ?Z ''pageSize'' \<noteq> None
                   \<and> query_string_of ?U ?Z ''api_key'' \<noteq> None"
    by code_simp
  from collections_classification [OF spZ, of True] valZ
  have 4: "supports ?U ?Z True = Inr True"
    by (simp add: getitem_def)
  from 1 2 3 4 show ?thesis by simp
qed

text \<open>
  Against the claim as stated: the URI that the repository's tests reject for its end
  date \<^verbatim>\<open>2018-10-21T13:31:42.363926\<close> is accepted once a slash follows that end date.
  The split path then has six elements, its fifth element is present and does not match
  the pattern, and \<open>supports\<close> returns true.
\<close>

theorem unchecked_end_date_counterexample:
  "split_path_of (example_library JNull)
     (api_uri ''/collections/BILLS/2018-01-28T20%3A18%3A10Z/2018-10-21T13:31:42.363926/''
        ''offset=0&pageSize=1000&api_key=K'')
     = [[], ''collections'', ''BILLS'', ''2018-01-28T20%3A18%3A10Z'',
        ''2018-10-21T13:31:42.363926'', []]
   \<and> \<not> fullmatch (example_library JNull) DATE_PATTERN
         (unquote (example_library JNull) ''2018-10-21T13:31:42.363926'')
   \<and> supports (example_library JNull)
       (api_uri ''/collections/BILLS/2018-01-28T20%3A18%3A10Z/2018-10-21T13:31:42.363926/''
          ''offset=0&pageSize=1000&api_key=K'')
       True = Inr True"
  by code_simp

subsection \<open>C2: a timestamp that does not parse\<close>

text \<open>
  C2, as the code has it. When the fetched response holds a record whose
  \<^verbatim>\<open>lastModified\<close> string does not match the format, every record before it yields a
  row and that record has a \<^verbatim>\<open>packageId\<close>, the generator yields the rows of the
  preceding records, in order, and then raises \<^verbatim>\<open>ValueError\<close>: the fetch fails with the
  parse error, no row of the offending record or of a later one is yielded, but the
  rows of the records before it have reached the caller by then.
\<close>

theorem parse_error_after_preceding_rows:
  assumes req: "sent (get_rows L self bounds order) = [req]"
    and payload: "http_get_json L req = Inr payload"
    and packages: "subscript payload ''packages'' = Inr (JArr (good @ bad # rest))"
    and good: "map (make_row L) good = map Inr rows"
    and pid: "subscript bad ''packageId'' = Inr pid"
    and lm: "subscript bad ''lastModified'' = Inr (JStr s)"
    and nomatch: "strptime L s ''%Y-%m-%dT%H:%M:%SZ'' = None"
  shows "yielded (get_rows L self bounds order) = rows
       \<and> raised (get_rows L self bounds order) = Some ValueError"
proof -
  have R: "get_rows L self bounds order =
             \<lparr>sent = [req], yielded = fst (yield_rows L (good @ bad # rest)),
              raised = snd (yield_rows L (good @ bad # rest))\<rparr>"
    unfolding get_rows_after_request [OF req] by (simp add: payload packages)
  have "make_row L bad = Inl ValueError"
    by (simp add: make_row_def pid lm datetime_strptime_def nomatch)
  from yield_rows_stops [OF good this, of rest] show ?thesis
    unfolding R by simp
qed

text \<open>
  The theorem at a response of two records, the first the record of scenario D and
  the second with the timestamp \<^verbatim>\<open>2023-03-01 10:29:21\<close>.
\<close>

theorem parse_error_after_preceding_rows_witness:
  "yielded (get_rows (example_library second_timestamp_unparsed_response) example_instance () ())
     = [\<lparr>package_id = JStr ''BILLS-118hr796ih'',
         last_modified = \<lparr>year = 2023, month = 3, day = 1, hour = 10, minute = 29, second = 21\<rparr>,
         package_link = JStr ''https://api.govinfo.gov/packages/BILLS-118hr796ih/summary'',
         doc_class = JStr ''hr'',
         title = JStr ''Supply Chain Mapping and Monitoring Act'',
         congress = 118,
         date_issued = JStr ''2023-02-02''\<rparr>]
   \<and> raised (get_rows (example_library second_timestamp_unparsed_response) example_instance () ())
     = Some ValueError"
proof -
  let ?L = "example_library second_timestamp_unparsed_response"
  let ?good = "example_package ''BILLS-118hr796ih'' ''2023-03-01T10:29:21Z'' ''118''"
  let ?bad = "example_package ''BILLS-117s100is'' ''2023-03-01 10:29:21'' ''117''"
  let ?row = "\<lparr>package_id = JStr ''BILLS-118hr796ih'',
         last_modified = \<lparr>year = 2023, month = 3, day = 1, hour = 10, minute = 29, second = 21\<rparr>,
         package_link = JStr ''https://api.govinfo.gov/packages/BILLS-118hr796ih/summary'',
         doc_class = JStr ''hr'',
         title = JStr ''Supply Chain Mapping and Monitoring Act'',
         congress = 118,
         date_issued = JStr ''2023-02-02''\<rparr>"
  have packages: "subscript second_timestamp_unparsed_response ''packages''
                    = Inr (JArr ([?good] @ ?bad # []))"
    by code_simp
  have good: "map (make_row ?L) [?good] = map Inr [?row]"
    by code_simp
  have pid: "subscript ?bad ''packageId'' = Inr (JStr ''BILLS-117s100is'')"
    by code_simp
  have lm: "subscript ?bad ''lastModified'' = Inr (JStr ''2023-03-01 10:29:21'')"
    by code_simp
  have nomatch: "strptime ?L ''2023-03-01 10:29:21'' ''%Y-%m-%dT%H:%M:%SZ'' = None"
    by code_simp
  from parse_error_after_preceding_rows
    [OF example_request example_payload packages good pid lm nomatch]
  show ?thesis .
qed

text \<open>
  Against the claim as stated: on that response the fetch fails with the parse error
  after it has yielded the row of the first record.
\<close>

theorem partial_rows_counterexample:
  "subscript second_timestamp_unparsed_response ''packages''
     = Inr (JArr [example_package ''BILLS-118hr796ih'' ''2023-03-01T10:29:21Z'' ''118'',
                  example_package ''BILLS-117s100is'' ''2023-03-01 10:29:21'' ''117''])
   \<and> strptime (example_library second_timestamp_unparsed_response)
       ''2023-03-01 10:29:21'' ''%Y-%m-%dT%H:%M:%SZ'' = None
   \<and> raised (get_rows (example_library second_timestamp_unparsed_response) example_instance () ())
       = Some ValueError
   \<and> map package_id
       (yielded (get_rows (example_library second_timestamp_unparsed_response)
          example_instance () ()))
       = [JStr ''BILLS-118hr796ih'']"
  by code_simp

subsection \<open>C3: no packages\<close>

text \<open>
  C3, as the code has it. When the fetched response has \<^verbatim>\<open>packages\<close> equal to the
  empty array, the generator yields no row and returns without raising. When the
  response is an object without the key \<^verbatim>\<open>packages\<close>, the generator yields no row and
  raises \<^verbatim>\<open>KeyError\<close>.
\<close>

theorem empty_packages:
  assumes req: "sent (get_rows L self bounds order) = [req]"
    and payload: "http_get_json L req = Inr payload"
  shows "(subscript payload ''packages'' = Inr (JArr []) \<longrightarrow>
            yielded (get_rows L self bounds order) = []
            \<and> raised (get_rows L self bounds order) = None)
       \<and> ((\<exists>kvs. payload = JObj kvs \<and> map_of kvs ''packages'' = None) \<longrightarrow>
            yielded (get_rows L self bounds order) = []
            \<and> raised (get_rows L self bounds order) = Some KeyError)"
  unfolding get_rows_after_request [OF req]
  by (auto simp add: payload dict_getitem_def)

text \<open>
  The theorem at the empty response of the repository's tests and at an error object
  of the API.
\<close>

theorem empty_packages_witness:
  "yielded (get_rows (example_library govinfo_empty_response) example_instance () ()) = []
   \<and> raised (get_rows (example_library govinfo_empty_response) example_instance () ()) = None
   \<and> yielded (get_rows (example_library api_error_response) example_instance () ()) = []
   \<and> raised (get_rows (example_library api_error_response) example_instance () ())
       = Some KeyError"
proof -
  have present: "subscript govinfo_empty_response ''packages'' = Inr (JArr [])"
    by code_simp
  have absent: "\<exists>kvs. api_error_response = JObj kvs \<and> map_of kvs ''packages'' = None"
    by (simp add: api_error_response_def)
  from empty_packages [OF example_request example_payload, of govinfo_empty_response] present
  have 1: "yielded (get_rows (example_library govinfo_empty_response) example_instance () ()) = []
   \<and> raised (get_rows (example_library govinfo_empty_response) example_instance () ()) = None"
    by blast
  from empty_packages [OF example_request example_payload, of api_error_response] absent
  have 2: "yielded (get_rows (example_library api_error_response) example_instance () ()) = []
   \<and> raised (get_rows (example_library api_error_response) example_instance () ())
       = Some KeyError"
    by blast
  from 1 2 show ?thesis by blast
qed

text \<open>
  Against the claim as stated: a response without the key \<^verbatim>\<open>packages\<close> makes the
  fetch raise.
\<close>

theorem missing_packages_key_counterexample:
  "subscript api_error_response ''packages'' = Inl KeyError
   \<and> raised (get_rows (example_library api_error_response) example_instance () ())
       = Some KeyError"
  by code_simp

subsection \<open>C4: the end date\<close>

text \<open>
  C4, as the code has it, for a URI whose segment at index 1 is \<^verbatim>\<open>collections\<close>. When
  the split path has exactly five elements, \<open>supports\<close> returns true only if the
  decoded fifth element fully matches \<open>DATE_PATTERN\<close>. A split path of exactly four
  elements, which has no end date, gets the answer of the same URI with a matching end
  date appended: the absence of the end date does not affect acceptance. When the
  split path has six or more elements, the answer does not depend on the fifth.
\<close>

theorem end_date_segment:
  assumes sp: "split_path_of L uri = sp"
    and ep: "getitem sp 1 = Inr ''collections''"
  shows "(length sp = 5 \<and> supports L uri fast = Inr True \<longrightarrow>
            fullmatch L DATE_PATTERN (unquote L (sp ! 4)))
       \<and> (\<forall>uri' e. length sp = 4
            \<and> split_path_of L uri' = sp @ [e]
            \<and> fullmatch L DATE_PATTERN (unquote L e)
            \<and> netloc (urlparse L uri') = netloc (urlparse L uri)
            \<and> query (urlparse L uri') = query (urlparse L uri)
            \<longrightarrow> supports L uri fast = supports L uri' fast)
       \<and> (5 < length sp \<longrightarrow>
            supports L uri fast =
              Inr (netloc (urlparse L uri) = ''api.govinfo.gov''
                   \<and> lower (sp ! 2) \<in> set COLLECTIONS
                   \<and> fullmatch L DATE_PATTERN (unquote L (sp ! 3))
                   \<and> query_string_of L uri ''offset'' \<noteq> None
                   \<and> query_string_of L uri ''pageSize'' \<noteq> None
                   \<and> query_string_of L uri ''api_key'' \<noteq> None))"
proof -
  from sp ep have e1: "getitem (split_path_of L uri) 1 = Inr ''collections''" by simp
  note s1 = supports_at_collections [OF e1, of fast, unfolded supports_collections_iff sp]
  have a: "length sp = 5 \<and> supports L uri fast = Inr True \<longrightarrow>
            fullmatch L DATE_PATTERN (unquote L (sp ! 4))"
    using s1 by simp
  have b: "supports L uri fast = supports L uri' fast"
    if h: "length sp = 4 \<and> split_path_of L uri' = sp @ [e]
            \<and> fullmatch L DATE_PATTERN (unquote L e)
            \<and> netloc (urlparse L uri') = netloc (urlparse L uri)
            \<and> query (urlparse L uri') = query (urlparse L uri)" for uri' e
  proof -
    from h ep have e2: "getitem (split_path_of L uri') 1 = Inr ''collections''"
      by (simp add: getitem_def nth_append)
    from h have nths: "(sp @ [e]) ! 2 = sp ! 2" "(sp @ [e]) ! 3 = sp ! 3" "(sp @ [e]) ! 4 = e"
      by (simp_all add: nth_append)
    show ?thesis
      unfolding s1 supports_at_collections [OF e2, of fast] supports_collections_iff
      using h nths by simp
  qed
  have c: "5 < length sp \<longrightarrow>
            supports L uri fast =
              Inr (netloc (urlparse L uri) = ''api.govinfo.gov''
                   \<and> lower (sp ! 2) \<in> set COLLECTIONS
                   \<and> fullmatch L DATE_PATTERN (unquote L (sp ! 3))
                   \<and> query_string_of L uri ''offset'' \<noteq> None
                   \<and> query_string_of L uri ''pageSize'' \<noteq> None
                   \<and> query_string_of L uri ''api_key'' \<noteq> None)"
    using s1 by auto
  from a b c show ?thesis by blast
qed

text \<open>
  The theorem at a URI with a matching end date, at the URI of scenario A against the
  same URI with that end date, and at a URI of six path elements.
\<close>

theorem end_date_segment_witness:
  "fullmatch (example_library JNull) DATE_PATTERN
         (unquote (example_library JNull) ''2018-01-29T20%3A18%3A10Z'')
   \<and> supports (example_library JNull)
       (api_uri ''/collections/BILLS/2018-01-28T20%3A18%3A10Z'' ''offset=0&pageSize=1000&api_key=K'')
       True =
     supports (example_library JNull)
       (api_uri ''/collections/BILLS/2018-01-28T20%3A18%3A10Z/2018-01-29T20%3A18%3A10Z''
          ''offset=0&pageSize=1000&api_key=K'')
       True
   \<and> supports (example_library JNull)
       (api_uri ''/collections/BILLS/2018-01-28T20%3A18%3A10Z/2018-10-21T13:31:42.363926/''
          ''offset=0&pageSize=1000&api_key=K'')
       True = Inr True"
proof -
  let ?L = "example_library JNull"
  let ?A = "api_uri ''/collections/BILLS/2018-01-28T20%3A18%3A10Z'' ''offset=0&pageSize=1000&api_key=K''"
  let ?B = "api_uri ''/collections/BILLS/2018-01-28T20%3A18%3A10Z/2018-01-29T20%3A18%3A10Z''
          ''offset=0&pageSize=1000&api_key=K''"
  let ?S = "api_uri ''/collections/BILLS/2018-01-28T20%3A18%3A10Z/2018-10-21T13:31:42.363926/''
          ''offset=0&pageSize=1000&api_key=K''"
  let ?spA = "[[], ''collections'', ''BILLS'', ''2018-01-28T20%3A18%3A10Z'']"
  let ?spB = "[[], ''collections'', ''BILLS'', ''2018-01-28T20%3A18%3A10Z'',
               ''2018-01-29T20%3A18%3A10Z'']"
  let ?spS = "[[], ''collections'', ''BILLS'', ''2018-01-28T20%3A18%3A10Z'',
               ''2018-10-21T13:31:42.363926'', []]"
  have spA: "split_path_of ?L ?A = ?spA" by code_simp
  have spB: "split_path_of ?L ?B = ?spB" by code_simp
  have spS: "split_path_of ?L ?S = ?spS" by code_simp
  have accB: "supports ?L ?B True = Inr True" by code_simp
  have ext: "split_path_of ?L ?B = ?spA @ [''2018-01-29T20%3A18%3A10Z'']
      \<and> fullmatch (example_library JNull) DATE_PATTERN
         (unquote (example_library JNull) ''2018-01-29T20%3A18%3A10Z'')
      \<and> netloc (urlparse ?L ?B) = netloc (urlparse ?L ?A)
      \<and> query (urlparse ?L ?B) = query (urlparse ?L ?A)"
    by code_simp
  have valS: "netloc (urlparse ?L ?S) = ''api.govinfo.gov''
                   \<and> lower ''BILLS'' \<in> set COLLECTIONS
                   \<and> fullmatch (example_library JNull) DATE_PATTERN
         (unquote (example_library JNull) ''2018-01-28T20%3A18%3A10Z'')
                   \<and> query_string_of ?L ?S ''offset'' \<noteq> None
                   \<and> query_string_of ?L ?S ''pageSize'' \<noteq> None
                   \<and> query_string_of ?L ?S ''api_key'' \<noteq> None"
    by code_simp
  have g: "getitem ?spA 1 = Inr ''collections''" "getitem ?spB 1 = Inr ''collections''"
    "getitem ?spS 1 = Inr ''collections''"
    by (simp_all add: getitem_def)
  from end_date_segment [OF spB g(2), of True] accB
  have 1: "fullmatch (example_library JNull) DATE_PATTERN
         (unquote (example_library JNull) ''2018-01-29T20%3A18%3A10Z'')" by simp
  from end_date_segment [OF spA g(1), of True] ext
  have 2: "supports ?L ?A True = supports ?L ?B True" by simp
  from end_date_segment [OF spS g(3), of True] valS
  have 3: "supports ?L ?S True = Inr True" by simp
  from 1 2 3 show ?thesis by simp
qed

text \<open>
  Against the claim as stated: a fifth segment that is present and does not match the
  pattern, followed by one more segment, and the URI is accepted.
\<close>

theorem extra_segment_counterexample:
  "split_path_of (example_library JNull)
     (api_uri ''/collections/BILLS/2018-01-28T20%3A18%3A10Z/yesterday/today''
        ''offset=0&pageSize=1000&api_key=K'')
     = [[], ''collections'', ''BILLS'', ''2018-01-28T20%3A18%3A10Z'', ''yesterday'', ''today'']
   \<and> \<not> fullmatch (example_library JNull) DATE_PATTERN
         (unquote (example_library JNull) ''yesterday'')
   \<and> supports (example_library JNull)
       (api_uri ''/collections/BILLS/2018-01-28T20%3A18%3A10Z/yesterday/today''
          ''offset=0&pageSize=1000&api_key=K'')
       True = Inr True"
  by code_simp

subsection \<open>C5: when classification raises\<close>

text \<open>
  C5, as the code has it, for a URI whose split path has a segment at index 1.
  \<open>supports\<close> raises exactly when that segment is not one of the four endpoint names
  or is one of \<^verbatim>\<open>packages\<close>, \<^verbatim>\<open>published\<close> and \<^verbatim>\<open>related\<close>: \<^verbatim>\<open>ProgrammingError\<close> in
  the first case, \<^verbatim>\<open>NotImplementedError\<close> in the second. A collections URI with fewer
  than four path elements, a collection outside \<open>COLLECTIONS\<close>, a start date that does
  not match, an end date that is the fifth and last element and does not match, or a
  missing key among \<^verbatim>\<open>offset\<close>, \<^verbatim>\<open>pageSize\<close> and \<^verbatim>\<open>api_key\<close> gets a plain false.
\<close>

theorem classification_errors:
  assumes sp: "split_path_of L uri = sp"
    and ep: "getitem sp 1 = Inr ep"
  shows "(isl (supports L uri fast) \<longleftrightarrow>
            ep \<notin> {''collections'', ''packages'', ''published'', ''related''}
            \<or> ep \<in> {''packages'', ''published'', ''related''})
       \<and> (ep \<notin> {''collections'', ''packages'', ''published'', ''related''} \<longrightarrow>
            supports L uri fast = Inl ProgrammingError)
       \<and> (ep \<in> {''packages'', ''published'', ''related''} \<longrightarrow>
            supports L uri fast = Inl NotImplementedError)
       \<and> (ep = ''collections''
            \<and> (length sp < 4
                \<or> lower (sp ! 2) \<notin> set COLLECTIONS
                \<or> \<not> fullmatch L DATE_PATTERN (unquote L (sp ! 3))
                \<or> (length sp = 5 \<and> \<not> fullmatch L DATE_PATTERN (unquote L (sp ! 4)))
                \<or> query_string_of L uri ''offset'' = None
                \<or> query_string_of L uri ''pageSize'' = None
                \<or> query_string_of L uri ''api_key'' = None)
            \<longrightarrow> supports L uri fast = Inr False)"
proof (cases "ep = ''collections''")
  case True
  with sp ep have "getitem (split_path_of L uri) 1 = Inr ''collections''" by simp
  note s1 = supports_at_collections [OF this, of fast, unfolded supports_collections_iff sp]
  from True show ?thesis unfolding s1 by auto
next
  case False
  from sp ep have "getitem (split_path_of L uri) 1 = Inr ep" by simp
  note s2 = supports_at_other [OF this False, of fast]
  from False show ?thesis unfolding s2 by auto
qed

text \<open>
  The theorem at an unknown endpoint, at the packages endpoint, and at the URI that
  the repository's tests reject for its end date.
\<close>

theorem classification_errors_witness:
  "isl (supports (example_library JNull) (api_uri ''/search'' ''api_key=K'') True)
   \<and> supports (example_library JNull) (api_uri ''/search'' ''api_key=K'') True
       = Inl ProgrammingError
   \<and> supports (example_library JNull)
       (api_uri ''/packages/BILLS-118hr796ih/summary'' ''api_key=K'') True
       = Inl NotImplementedError
   \<and> supports (example_library JNull)
       (api_uri ''/collections/BILLS/2018-01-28T20%3A18%3A10Z/2018-10-21T13:31:42.363926''
          ''offset=0&pageSize=1000&api_key=K'')
       True = Inr False"
proof -
  let ?L = "example_library JNull"
  let ?S = "api_uri ''/search'' ''api_key=K''"
  let ?P = "api_uri ''/packages/BILLS-118hr796ih/summary'' ''api_key=K''"
  let ?F = "api_uri ''/collections/BILLS/2018-01-28T20%3A18%3A10Z/2018-10-21T13:31:42.363926''
          ''offset=0&pageSize=1000&api_key=K''"
  let ?spF = "[[], ''collections'', ''BILLS'', ''2018-01-28T20%3A18%3A10Z'',
               ''2018-10-21T13:31:42.363926'']"
  have spS: "split_path_of ?L ?S = [[], ''search'']" by code_simp
  have spP: "split_path_of ?L ?P = [[], ''packages'', ''BILLS-118hr796ih'', ''summary'']"
    by code_simp
  have spF: "split_path_of ?L ?F = ?spF" by code_simp
  have bad: "\<not> fullmatch (example_library JNull) DATE_PATTERN
         (unquote (example_library JNull) ''2018-10-21T13:31:42.363926'')" by code_simp
  have g: "getitem [[], ''search''] 1 = Inr ''search''"
    "getitem [[], ''packages'', ''BILLS-118hr796ih'', ''summary''] 1 = Inr ''packages''"
    "getitem ?spF 1 = Inr ''collections''"
    by (simp_all add: getitem_def)
  from classification_errors [OF spS g(1), of True]
  have 1: "isl (supports ?L ?S True) \<and> supports ?L ?S True = Inl ProgrammingError" by simp
  from classification_errors [OF spP g(2), of True]
  have 2: "supports ?L ?P True = Inl NotImplementedError" by simp
  from classification_errors [OF spF g(3), of True] bad
  have 3: "supports ?L ?F True = Inr False" by simp
  from 1 2 3 show ?thesis by simp
qed

text \<open>
  Against the claim as stated: a collections URI whose end date \<^verbatim>\<open>2018-01-29\<close> is
  malformed and is followed by one more segment does not get the plain false.
\<close>

theorem malformed_date_accepted_counterexample:
  "split_path_of (example_library JNull)
     (api_uri ''/collections/BILLS/2018-01-28T20%3A18%3A10Z/2018-01-29/json''
        ''offset=0&pageSize=1000&api_key=K'')
     = [[], ''collections'', ''BILLS'', ''2018-01-28T20%3A18%3A10Z'', ''2018-01-29'', ''json'']
   \<and> \<not> fullmatch (example_library JNull) DATE_PATTERN
         (unquote (example_library JNull) ''2018-01-29'')
   \<and> supports (example_library JNull)
       (api_uri ''/collections/BILLS/2018-01-28T20%3A18%3A10Z/2018-01-29/json''
          ''offset=0&pageSize=1000&api_key=K'')
       True \<noteq> Inr False"
  by code_simp

subsection \<open>C6: bounds and order\<close>

text \<open>
  C6. For every instance, \<open>get_rows\<close> with any two pairs of bounds and order sends the
  same requests, yields the same rows and ends the same way, under the same library
  (the same response to a request, the same \<^verbatim>\<open>strptime\<close> and \<^verbatim>\<open>int\<close>). For an
  instance of the collections endpoint the one request is a GET of
  \<^verbatim>\<open>{url}/{endpoint}/{collection}/{start_date}/{end_date or ""}\<close> with the
  parameters \<^verbatim>\<open>offset\<close>, \<^verbatim>\<open>pageSize\<close> and \<^verbatim>\<open>api_key\<close> taken from the instance.
\<close>

theorem bounds_and_order_ignored:
  "get_rows L self bounds order = get_rows L self bounds' order'
   \<and> (endpoint self = ''collections'' \<and> attrs self = Some a \<longrightarrow>
        sent (get_rows L self bounds order) =
          [\<lparr>via = Requests_get,
            target = url self @ ''/'' @ endpoint self @ ''/'' @ collection a @ ''/''
                     @ start_date a @ ''/'' @ (case end_date a of None \<Rightarrow> [] | Some e \<Rightarrow> e),
            query_params = [(''offset'', offset a),
                            (''pageSize'', page_size a),
                            (''api_key'', api_key self)]\<rparr>])"
proof
  show "get_rows L self bounds order = get_rows L self bounds' order'"
    by (simp add: get_rows_def)
next
  show "endpoint self = ''collections'' \<and> attrs self = Some a \<longrightarrow>
        sent (get_rows L self bounds order) =
          [\<lparr>via = Requests_get,
            target = url self @ ''/'' @ endpoint self @ ''/'' @ collection a @ ''/''
                     @ start_date a @ ''/'' @ (case end_date a of None \<Rightarrow> [] | Some e \<Rightarrow> e),
            query_params = [(''offset'', offset a),
                            (''pageSize'', page_size a),
                            (''api_key'', api_key self)]\<rparr>]"
    using get_rows_request [of self a L bounds order] by blast
qed

text \<open>
  The theorem at the instance of scenario D, with a bound on \<^verbatim>\<open>last_modified\<close> and an
  order on \<^verbatim>\<open>congress\<close> against no bounds and no order.
\<close>

theorem bounds_and_order_ignored_witness:
  "get_rows (example_library govinfo_response) example_instance
     [(''last_modified'', ''2023-03-01T00:00:00Z'')] [(''congress'', True)]
   = get_rows (example_library govinfo_response) example_instance
       ([] :: (string \<times> string) list) ([] :: (string \<times> bool) list)
   \<and> sent (get_rows (example_library govinfo_response) example_instance
       [(''last_modified'', ''2023-03-01T00:00:00Z'')] [(''congress'', True)])
     = [\<lparr>via = Requests_get,
         target = ''https://api.govinfo.gov/collections/BILLS/2023-02-28T20%3A18%3A10Z/2023-03-01T20%3A18%3A10Z'',
         query_params = [(''offset'', ''0''), (''pageSize'', ''1''), (''api_key'', ''K'')]\<rparr>]"
proof -
  have inst: "endpoint example_instance = ''collections''
      \<and> attrs example_instance =
          Some \<lparr>collection = ''BILLS'',
                start_date = ''2023-02-28T20%3A18%3A10Z'',
                end_date = Some ''2023-03-01T20%3A18%3A10Z'',
                offset = ''0'',
                page_size = ''1''\<rparr>"
    by (simp add: example_instance_def)
  have flds: "url example_instance = ''https://api.govinfo.gov''"
    "api_key example_instance = ''K''"
    by (simp_all add: example_instance_def)
  note T = bounds_and_order_ignored
    [of "example_library govinfo_response" example_instance
      "[(''last_modified'', ''2023-03-01T00:00:00Z'')]" "[(''congress'', True)]"
      "[] :: (string \<times> string) list" "[] :: (string \<times> bool) list"
      "\<lparr>collection = ''BILLS'',
                start_date = ''2023-02-28T20%3A18%3A10Z'',
                end_date = Some ''2023-03-01T20%3A18%3A10Z'',
                offset = ''0'',
                page_size = ''1''\<rparr>"]
  from T [THEN conjunct1]
  have 1: "get_rows (example_library govinfo_response) example_instance
     [(''last_modified'', ''2023-03-01T00:00:00Z'')] [(''congress'', True)]
   = get_rows (example_library govinfo_response) example_instance
       ([] :: (string \<times> string) list) ([] :: (string \<times> bool) list)" .
  from T [THEN conjunct2] inst flds
  have 2: "sent (get_rows (example_library govinfo_response) example_instance
       [(''last_modified'', ''2023-03-01T00:00:00Z'')] [(''congress'', True)])
     = [\<lparr>via = Requests_get,
         target = ''https://api.govinfo.gov/collections/BILLS/2023-02-28T20%3A18%3A10Z/2023-03-01T20%3A18%3A10Z'',
         query_params = [(''offset'', ''0''), (''pageSize'', ''1''), (''api_key'', ''K'')]\<rparr>]"
    by simp
  from 1 2 show ?thesis by blast
qed

subsection \<open>C7: a missing query parameter\<close>

text \<open>
  C7, as the code has it. A URI whose query dictionary lacks \<^verbatim>\<open>api_key\<close>,
  \<^verbatim>\<open>offset\<close> or \<^verbatim>\<open>pageSize\<close> is never accepted, and when its segment at index 1 is
  \<^verbatim>\<open>collections\<close> the answer is false. For the other endpoints \<open>supports\<close> raises
  whatever the query holds.
\<close>

theorem missing_query_parameter:
  assumes miss: "query_string_of L uri ''api_key'' = None
                 \<or> query_string_of L uri ''offset'' = None
                 \<or> query_string_of L uri ''pageSize'' = None"
  shows "supports L uri fast \<noteq> Inr True
       \<and> (getitem (split_path_of L uri) 1 = Inr ''collections'' \<longrightarrow>
            supports L uri fast = Inr False)"
proof (cases "getitem (split_path_of L uri) 1")
  case (Inl e)
  from supports_no_segment [OF this] Inl show ?thesis by simp
next
  case (Inr ep)
  show ?thesis
  proof (cases "ep = ''collections''")
    case True
    with Inr have "getitem (split_path_of L uri) 1 = Inr ''collections''" by simp
    note s1 = supports_at_collections [OF this, of fast, unfolded supports_collections_iff]
    from miss Inr True show ?thesis unfolding s1 by auto
  next
    case False
    from supports_at_other [OF Inr False, of fast] Inr False show ?thesis by simp
  qed
qed

text \<open>
  The theorem at the URI of the spec's scenario B, which lacks \<^verbatim>\<open>pageSize\<close>.
\<close>

theorem missing_query_parameter_witness:
  "query_string_of (example_library JNull)
     (api_uri ''/collections/BILLS/2018-01-28T20%3A18%3A10Z'' ''offset=0&api_key=K'')
     ''pageSize'' = None
   \<and> supports (example_library JNull)
       (api_uri ''/collections/BILLS/2018-01-28T20%3A18%3A10Z'' ''offset=0&api_key=K'')
       True = Inr False"
proof -
  let ?L = "example_library JNull"
  let ?B = "api_uri ''/collections/BILLS/2018-01-28T20%3A18%3A10Z'' ''offset=0&api_key=K''"
  have miss: "query_string_of ?L ?B ''pageSize'' = None" by code_simp
  have ep: "getitem (split_path_of ?L ?B) 1 = Inr ''collections''" by code_simp
  from missing_query_parameter [of ?L ?B True] miss ep
  have "supports ?L ?B True = Inr False" by simp
  with miss show ?thesis by simp
qed

text \<open>
  Against the claim as stated: a packages URI without \<^verbatim>\<open>offset\<close> does not get a
  false, \<open>supports\<close> raises \<^verbatim>\<open>NotImplementedError\<close>.
\<close>

theorem missing_parameter_raises_counterexample:
  "query_string_of (example_library JNull)
     (api_uri ''/packages/BILLS-118hr796ih/summary'' ''api_key=K'') ''offset'' = None
   \<and> supports (example_library JNull)
       (api_uri ''/packages/BILLS-118hr796ih/summary'' ''api_key=K'') True
       = Inl NotImplementedError"
  by code_simp

subsection \<open>C8: the row of a record\<close>

text \<open>
  C8. Once the request has been answered with a payload whose \<^verbatim>\<open>packages\<close> is an
  array, the generator maps records to rows as the spec says. Every row it yields, at
  position \<open>i\<close>, is the row of the record at position \<open>i\<close>: \<open>package_id\<close>,
  \<open>package_link\<close>, \<open>doc_class\<close>, \<open>title\<close> and \<open>date_issued\<close> are the record's
  \<^verbatim>\<open>packageId\<close>, \<^verbatim>\<open>packageLink\<close>, \<^verbatim>\<open>docClass\<close>, \<^verbatim>\<open>title\<close> and \<^verbatim>\<open>dateIssued\<close> unchanged,
  \<open>last_modified\<close> is what \<^verbatim>\<open>strptime\<close> returns for the record's \<^verbatim>\<open>lastModified\<close>
  string with the format \<^verbatim>\<open>%Y-%m-%dT%H:%M:%SZ\<close>, and \<open>congress\<close> is what \<^verbatim>\<open>int\<close>
  returns for the record's \<^verbatim>\<open>congress\<close>. And the rows are produced: when the first
  records of the array each have such a row, these rows are the first rows yielded, in
  order; when every record has one, they are all the rows yielded and the generator
  returns without raising.
\<close>

theorem row_mapping:
  assumes req: "sent (get_rows L self bounds order) = [req]"
    and payload: "http_get_json L req = Inr payload"
    and packages: "subscript payload ''packages'' = Inr (JArr records)"
  shows "(\<forall>i. i < length (yielded (get_rows L self bounds order)) \<longrightarrow>
            i < length records
            \<and> spec_row L (records ! i) (yielded (get_rows L self bounds order) ! i))
       \<and> (\<forall>good rest rows. records = good @ rest \<and> list_all2 (spec_row L) good rows \<longrightarrow>
            take (length good) (yielded (get_rows L self bounds order)) = rows)
       \<and> (\<forall>rows. list_all2 (spec_row L) records rows \<longrightarrow>
            yielded (get_rows L self bounds order) = rows
            \<and> raised (get_rows L self bounds order) = None)"
proof -
  have R: "get_rows L self bounds order =
             \<lparr>sent = [req], yielded = fst (yield_rows L records),
              raised = snd (yield_rows L records)\<rparr>"
    unfolding get_rows_after_request [OF req] by (simp add: payload packages)
  have conv: "list_all2 (spec_row L) rs rows
                = list_all2 (\<lambda>r row. make_row L r = Inr row) rs rows" for rs rows
    by (simp add: make_row_iff)
  have a: "i < length records \<and> spec_row L (records ! i) (fst (yield_rows L records) ! i)"
    if "i < length (fst (yield_rows L records))" for i
    using yield_rows_nth [OF that] by (simp add: make_row_iff)
  have b: "take (length good) (fst (yield_rows L records)) = rows"
    if "records = good @ rest \<and> list_all2 (spec_row L) good rows" for good rest rows
  proof -
    from that have l: "list_all2 (\<lambda>r row. make_row L r = Inr row) good rows"
      by (simp add: conv)
    then have "length good = length rows" by (rule list_all2_lengthD)
    with yield_rows_prefix [OF l, of rest] that show ?thesis by simp
  qed
  have c: "fst (yield_rows L records) = rows \<and> snd (yield_rows L records) = None"
    if "list_all2 (spec_row L) records rows" for rows
  proof -
    from that have "list_all2 (\<lambda>r row. make_row L r = Inr row) records rows"
      by (simp add: conv)
    from yield_rows_prefix [OF this, of "[]"] show ?thesis by simp
  qed
  from a b c show ?thesis unfolding R by simp
qed

text \<open>
  The theorem at the response of scenario D, which gives one row with the timestamp
  of 2023-03-01 10:29:21 and the integer 118, and at the response whose second
  timestamp does not parse, where the row of the first record is still the first row.
\<close>

theorem row_mapping_witness:
  "yielded (get_rows (example_library govinfo_response) example_instance () ())
     = [\<lparr>package_id = JStr ''BILLS-118hr796ih'',
         last_modified = \<lparr>year = 2023, month = 3, day = 1, hour = 10, minute = 29, second = 21\<rparr>,
         package_link = JStr ''https://api.govinfo.gov/packages/BILLS-118hr796ih/summary'',
         doc_class = JStr ''hr'',
         title = JStr ''Supply Chain Mapping and Monitoring Act'',
         congress = 118,
         date_issued = JStr ''2023-02-02''\<rparr>]
   \<and> raised (get_rows (example_library govinfo_response) example_instance () ()) = None
   \<and> spec_row (example_library govinfo_response)
       (example_package ''BILLS-118hr796ih'' ''2023-03-01T10:29:21Z'' ''118'')
       (yielded (get_rows (example_library govinfo_response) example_instance () ()) ! 0)
   \<and> take 1 (yielded (get_rows (example_library second_timestamp_unparsed_response)
                example_instance () ()))
     = [\<lparr>package_id = JStr ''BILLS-118hr796ih'',
         last_modified = \<lparr>year = 2023, month = 3, day = 1, hour = 10, minute = 29, second = 21\<rparr>,
         package_link = JStr ''https://api.govinfo.gov/packages/BILLS-118hr796ih/summary'',
         doc_class = JStr ''hr'',
         title = JStr ''Supply Chain Mapping and Monitoring Act'',
         congress = 118,
         date_issued = JStr ''2023-02-02''\<rparr>]"
proof -
  let ?L = "example_library govinfo_response"
  let ?L2 = "example_library second_timestamp_unparsed_response"
  let ?pkg = "example_package ''BILLS-118hr796ih'' ''2023-03-01T10:29:21Z'' ''118''"
  let ?bad = "example_package ''BILLS-117s100is'' ''2023-03-01 10:29:21'' ''117''"
  let ?row = "\<lparr>package_id = JStr ''BILLS-118hr796ih'',
         last_modified = \<lparr>year = 2023, month = 3, day = 1, hour = 10, minute = 29, second = 21\<rparr>,
         package_link = JStr ''https://api.govinfo.gov/packages/BILLS-118hr796ih/summary'',
         doc_class = JStr ''hr'',
         title = JStr ''Supply Chain Mapping and Monitoring Act'',
         congress = 118,
         date_issued = JStr ''2023-02-02''\<rparr>"
  have packages: "subscript govinfo_response ''packages'' = Inr (JArr [?pkg])"
    by code_simp
  have packages2: "subscript second_timestamp_unparsed_response ''packages''
                     = Inr (JArr [?pkg, ?bad])"
    by code_simp
  have row: "spec_row ?L ?pkg ?row" by code_simp
  have row2: "spec_row ?L2 ?pkg ?row" by code_simp
  note T = row_mapping [OF example_request example_payload packages]
  note T2 = row_mapping [OF example_request example_payload packages2]
  have all_rows: "list_all2 (spec_row ?L) [?pkg] [?row]"
    using row by simp
  have first_rows: "[?pkg, ?bad] = [?pkg] @ [?bad] \<and> list_all2 (spec_row ?L2) [?pkg] [?row]"
    using row2 by simp
  from T [THEN conjunct2, THEN conjunct2, rule_format, OF all_rows]
  have 1: "yielded (get_rows ?L example_instance () ()) = [?row]
           \<and> raised (get_rows ?L example_instance () ()) = None" .
  from T [THEN conjunct1, rule_format, of 0] 1
  have 2: "spec_row ?L ?pkg (yielded (get_rows ?L example_instance () ()) ! 0)"
    by simp
  from T2 [THEN conjunct2, THEN conjunct1, rule_format, OF first_rows]
  have 3: "take 1 (yielded (get_rows ?L2 example_instance () ())) = [?row]"
    by simp
  from 1 2 3 show ?thesis by blast
qed

subsection \<open>C9: the transport of the request\<close>

text \<open>
  C9 does not hold of the code. \<^verbatim>\<open>__init__\<close> builds a cached session and keeps it in
  the instance, and \<^verbatim>\<open>get_rows\<close> sends its request with the function \<^verbatim>\<open>requests.get\<close>
  of the module, not with that session: at the instance built from the URI of
  scenario D the one request goes through \<open>Requests_get\<close>, and none through the
  session of the instance.
\<close>

theorem fetch_bypasses_cached_session:
  "init (example_library govinfo_response)
     (api_uri ''/collections/BILLS/2023-02-28T20%3A18%3A10Z/2023-03-01T20%3A18%3A10Z''
        ''offset=0&pageSize=1&api_key=K'')
     = Inr example_instance
   \<and> session example_instance
       = \<lparr>cache_name = ''govinfo_cache'', backend = ''sqlite'', expore_after = 180\<rparr>
   \<and> map via (sent (get_rows (example_library govinfo_response) example_instance () ()))
       = [Requests_get]
   \<and> Session_get (session example_instance)
       \<notin> set (map via (sent (get_rows (example_library govinfo_response) example_instance () ())))"
proof -
  have 1: "init (example_library govinfo_response)
     (api_uri ''/collections/BILLS/2023-02-28T20%3A18%3A10Z/2023-03-01T20%3A18%3A10Z''
        ''offset=0&pageSize=1&api_key=K'')
     = Inr example_instance"
    by code_simp
  have 2: "session example_instance
       = \<lparr>cache_name = ''govinfo_cache'', backend = ''sqlite'', expore_after = 180\<rparr>"
    by (simp add: example_instance_def)
  have 3: "map via (sent (get_rows (example_library govinfo_response) example_instance () ()))
       = [Requests_get]"
    by (simp add: example_request)
  from 1 2 3 show ?thesis by simp
qed

subsection \<open>C10: a URI without a path\<close>

text \<open>
  C10. When the path of the URI is empty, the split path is the list of one empty
  string, the element at index 1 does not exist, and \<open>supports\<close> raises \<^verbatim>\<open>IndexError\<close>:
  it neither returns false nor raises \<^verbatim>\<open>ProgrammingError\<close>.
\<close>

theorem empty_path_index_error:
  assumes "path (urlparse L uri) = []"
  shows "supports L uri fast = Inl IndexError"
  using assms by (simp add: supports_def getitem_def)

text \<open>
  The theorem at \<^verbatim>\<open>https://api.govinfo.gov\<close>.
\<close>

theorem empty_path_index_error_witness:
  "path (urlparse (example_library JNull) (api_uri [] [])) = []
   \<and> api_uri [] [] = ''https://api.govinfo.gov''
   \<and> supports (example_library JNull) (api_uri [] []) True = Inl IndexError"
proof -
  have p: "path (urlparse (example_library JNull) (api_uri [] [])) = []" by code_simp
  have u: "api_uri [] [] = ''https://api.govinfo.gov''" by code_simp
  from empty_path_index_error [OF p, of True] p u show ?thesis by simp
qed

end
